theory Spec2Isabelle
  imports Complex_Main
begin

section \<open>Data model\<close>

text \<open>
  A shallow embedding of the migration engine (\<^verbatim>\<open>migrate.js\<close>, the first unnamed part),
  of the selective migrator (\<^verbatim>\<open>selective-migrate.js\<close>, the second unnamed part) and of
  \<^verbatim>\<open>verify.js\<close>.

  JavaScript strings are \<open>string\<close>; a value that may be \<^verbatim>\<open>undefined\<close> or \<^verbatim>\<open>null\<close> is
  an \<open>option\<close>. An \<^verbatim>\<open>Error\<close> object is a record of its \<^verbatim>\<open>code\<close> and \<^verbatim>\<open>message\<close>; a
  rejected promise or a \<^verbatim>\<open>throw\<close> is the \<open>Inl\<close> of a sum.
\<close>

datatype js_error = JsError (code: string) (message: string)

text \<open>
  An asset descriptor as the catalog returns it. Only the fields that decide control flow
  are kept: \<^verbatim>\<open>public_id\<close> (always present), \<^verbatim>\<open>format\<close> (absent for raw assets),
  \<^verbatim>\<open>bytes\<close> and \<^verbatim>\<open>folder\<close> (optional) and the two delivery URLs (optional). The fields
  that only feed the metadata of the upload request (dimensions, tags, context, creation
  date) are not modelled.
\<close>

record resource =
  public_id :: string
  format :: "string option"
  bytes :: "nat option"
  folder :: "string option"
  secure_url :: "string option"
  url :: "string option"

text \<open>The answer of \<^verbatim>\<open>cloudinary.api.resources\<close>: a page and the cursor of the next one.\<close>

record page =
  resources :: "resource list"
  next_cursor :: "string option"

text \<open>
  JavaScript truthiness of an optional string (\<^verbatim>\<open>if (nextCursor)\<close>, \<^verbatim>\<open>folder ? .. : ..\<close>,
  \<^verbatim>\<open>a || b\<close>): \<^verbatim>\<open>undefined\<close>, \<^verbatim>\<open>null\<close> and the empty string are falsy. The same for
  an optional number (\<^verbatim>\<open>bytes && ..\<close>): absent and \<open>0\<close> are falsy.
\<close>

definition truthy :: "string option \<Rightarrow> bool" where
  "truthy s = (case s of None \<Rightarrow> False | Some x \<Rightarrow> x \<noteq> [])"

definition truthy_num :: "nat option \<Rightarrow> bool" where
  "truthy_num n = (case n of None \<Rightarrow> False | Some k \<Rightarrow> k \<noteq> 0)"

text \<open>
  An optional string inside a template literal (\<^verbatim>\<open>`${format}`\<close>): an absent value is
  written \<^verbatim>\<open>undefined\<close>.
\<close>

definition template :: "string option \<Rightarrow> string" where
  "template v = (case v of None \<Rightarrow> ''undefined'' | Some x \<Rightarrow> x)"

text \<open>
  What the stream pipeline of \<^verbatim>\<open>downloadAsset\<close> ends with: the writer's \<^verbatim>\<open>finish\<close> event,
  or its \<^verbatim>\<open>error\<close> event. An error of the writer comes either from opening the file (no
  file is created) or from a later write (the file exists, partly written); the flag says
  whether the file was created.
\<close>

datatype pipe_outcome = Finish | WriterError js_error bool

text \<open>
  The module-level environment: the two configured clients, the HTTP client, and the
  downloads directory. The catalog is only read, so its calls are functions of the request:
  \<open>api_resources\<close> of the cursor (the other options are fixed for a run),
  \<open>api_resources_by_ids\<close> of the identifier list. The destination store and the network
  are changed by the run: their calls take the state \<open>'w\<close> of the outside world and return
  the new one. Bucket name, request metadata and content type are part of the client.

  \<open>MIGRATION_CONCURRENCY\<close> is \<^verbatim>\<open>parseInt(process.env.MIGRATION_CONCURRENCY)\<close>, \<open>None\<close> for
  \<^verbatim>\<open>NaN\<close> (the variable unset or not a number). The limiter comes from the library
  \<^verbatim>\<open>p-limit\<close>, which is not part of the repository: \<open>pLimit sv c\<close> is the error with which
  \<^verbatim>\<open>require('p-limit').default(c)\<close> throws, if it does (the library refuses a concurrency
  that is not a positive number).
\<close>

record 'w env =
  api_resources :: "string option \<Rightarrow> js_error + page"
  api_resources_by_ids :: "string list \<Rightarrow> js_error + resource list"
  s3_headObject :: "string \<Rightarrow> 'w \<Rightarrow> (js_error + nat) \<times> 'w"
  axios_get :: "string \<Rightarrow> 'w \<Rightarrow> (js_error + unit) \<times> 'w"
  pipe_to_file :: "string \<Rightarrow> 'w \<Rightarrow> pipe_outcome \<times> 'w"
  s3_upload :: "string \<Rightarrow> 'w \<Rightarrow> (js_error + unit) \<times> 'w"
  downloadsDir :: string
  MIGRATION_CONCURRENCY :: "int option"
  pLimit :: "int \<Rightarrow> js_error option"

text \<open>The calls a run issues to the outside, and its \<^verbatim>\<open>console.warn\<close> lines, in order.\<close>

datatype event =
    ApiResources "string option"
  | ApiResourcesByIds "string list"
  | S3HeadObject string
  | HttpGet string
  | S3Upload string
  | ConsoleWarn string string

text \<open>
  What a run can change outside of its own object: the outside world, the files of the
  downloads directory, and the log of events.
\<close>

record 'w sys =
  world :: 'w
  files :: "string set"
  trace :: "event list"

text \<open>
  The fields of \<^verbatim>\<open>CloudinaryToS3Migrator\<close>, on top of the system state. A failed asset is
  recorded with its identifier and the error message, a skipped one with its identifier,
  its key and the reason.
\<close>

record 'w migrator = "'w sys" +
  migratedCount :: nat
  failedCount :: nat
  skippedCount :: nat
  totalCount :: nat
  failedAssets :: "(string \<times> string) list"
  skippedAssets :: "(string \<times> string \<times> string) list"
  skipExisting :: bool
  forceOverwrite :: bool

text \<open>
  The constructor: \<^verbatim>\<open>options.skipExisting !== false\<close> and
  \<^verbatim>\<open>options.forceOverwrite === true\<close>, each option being absent, true or false.
\<close>

definition new_migrator ::
    "bool option \<Rightarrow> bool option \<Rightarrow> ('w, 'z) sys_scheme \<Rightarrow> 'w migrator" where
  "new_migrator optSkipExisting optForceOverwrite s =
     \<lparr> world = world s, files = files s, trace = trace s,
       migratedCount = 0, failedCount = 0, skippedCount = 0, totalCount = 0,
       failedAssets = [], skippedAssets = [],
       skipExisting = (optSkipExisting \<noteq> Some False),
       forceOverwrite = (optForceOverwrite = Some True) \<rparr>"

section \<open>The transfer worker\<close>

text \<open>The destination key of the migration (\<^verbatim>\<open>migrateAsset\<close>, line 126).\<close>

definition migrate_s3Key :: "resource \<Rightarrow> string" where
  "migrate_s3Key r = ''cloudinary/'' @ public_id r @ ''.'' @ template (format r)"

text \<open>
  \<^verbatim>\<open>checkS3FileExists\<close>: a metadata probe; \<^verbatim>\<open>true\<close> when it succeeds, \<^verbatim>\<open>false\<close> on
  \<^verbatim>\<open>NotFound\<close>, and \<^verbatim>\<open>false\<close> after a warning on any other error. The function has no
  throwing path, so its result is a plain \<open>bool\<close>.
\<close>

definition checkS3FileExists ::
    "'w env \<Rightarrow> string \<Rightarrow> ('w, 'z) sys_scheme \<Rightarrow> bool \<times> ('w, 'z) sys_scheme" where
  "checkS3FileExists sv s3Key s =
     (case s3_headObject sv s3Key (world s) of (r, w') \<Rightarrow>
        (let s1 = s\<lparr>world := w', trace := trace s @ [S3HeadObject s3Key]\<rparr> in
         case r of
           Inr _ \<Rightarrow> (True, s1)
         | Inl error \<Rightarrow>
             if code error = ''NotFound'' then (False, s1)
             else (False, s1\<lparr>trace := trace s1 @ [ConsoleWarn s3Key (message error)]\<rparr>)))"

text \<open>
  The staging file of an asset (\<^verbatim>\<open>downloadAsset\<close>, lines 181-182): every slash of the
  identifier becomes an underscore. \<^verbatim>\<open>path.join\<close> is taken on a file name that is one plain
  path segment, where it only puts a separator between directory and name.
\<close>

definition stagingFileName :: "string \<Rightarrow> string option \<Rightarrow> string" where
  "stagingFileName publicId fmt =
     map (\<lambda>c. if c = CHR ''/'' then CHR ''_'' else c) publicId @ ''.'' @ template fmt"

definition path_join :: "string \<Rightarrow> string \<Rightarrow> string" where
  "path_join dir name = dir @ ''/'' @ name"

definition stagingFilePath :: "'w env \<Rightarrow> string \<Rightarrow> string option \<Rightarrow> string" where
  "stagingFilePath sv publicId fmt = path_join (downloadsDir sv) (stagingFileName publicId fmt)"

text \<open>
  \<^verbatim>\<open>downloadAsset\<close>: the HTTP request may be rejected (nothing is written); otherwise the
  response is piped into a write stream on the staging path, and the promise resolves with
  the path on \<^verbatim>\<open>finish\<close> or rejects on the writer's \<^verbatim>\<open>error\<close>. These are the two events
  the source listens to; a response stream that breaks without either event leaves the
  promise unsettled, and that case is outside the model.
\<close>

definition downloadAsset ::
    "'w env \<Rightarrow> string \<Rightarrow> string \<Rightarrow> string option \<Rightarrow> ('w, 'z) sys_scheme
       \<Rightarrow> (js_error + string) \<times> ('w, 'z) sys_scheme" where
  "downloadAsset sv u publicId fmt s =
     (let filePath = stagingFilePath sv publicId fmt in
      case axios_get sv u (world s) of (r, w1) \<Rightarrow>
        (let s1 = s\<lparr>world := w1, trace := trace s @ [HttpGet u]\<rparr> in
         case r of
           Inl error \<Rightarrow> (Inl error, s1)
         | Inr _ \<Rightarrow>
             (case pipe_to_file sv filePath (world s1) of (out, w2) \<Rightarrow>
                (case out of
                   Finish \<Rightarrow>
                     (Inr filePath, s1\<lparr>world := w2, files := insert filePath (files s1)\<rparr>)
                 | WriterError error created \<Rightarrow>
                     (Inl error,
                      s1\<lparr>world := w2,
                         files := (if created then insert filePath (files s1) else files s1)\<rparr>)))))"

text \<open>
  \<^verbatim>\<open>getContentType\<close>: \<^verbatim>\<open>format.toLowerCase()\<close> throws a \<^verbatim>\<open>TypeError\<close> when the format is
  absent; with a format, the lookup in the table never throws. The content type it returns
  goes into the upload request, which is the client's; the model keeps the throw.
\<close>

definition getContentType :: "string option \<Rightarrow> js_error + unit" where
  "getContentType fmt =
     (case fmt of
        None \<Rightarrow> Inl (JsError [] ''Cannot read properties of undefined (reading toLowerCase)'')
      | Some f \<Rightarrow> Inr ())"

text \<open>
  \<^verbatim>\<open>uploadToS3\<close>: the key override wins when it is a non-empty string;
  \<^verbatim>\<open>fs.readFileSync\<close> throws when the file is not there; building the request parameters
  calls \<^verbatim>\<open>getContentType\<close>, which may throw; then the upload request.
\<close>

definition uploadToS3 ::
    "'w env \<Rightarrow> string \<Rightarrow> resource \<Rightarrow> string \<Rightarrow> ('w, 'z) sys_scheme
       \<Rightarrow> (js_error + unit) \<times> ('w, 'z) sys_scheme" where
  "uploadToS3 sv filePath r s3KeyOverride s =
     (let s3Key = (if s3KeyOverride \<noteq> [] then s3KeyOverride else migrate_s3Key r) in
      if filePath \<notin> files s then (Inl (JsError ''ENOENT'' filePath), s)
      else
        (case getContentType (format r) of
           Inl error \<Rightarrow> (Inl error, s)
         | Inr _ \<Rightarrow>
             (case s3_upload sv s3Key (world s) of (r', w') \<Rightarrow>
                (r', s\<lparr>world := w', trace := trace s @ [S3Upload s3Key]\<rparr>))))"

text \<open>\<^verbatim>\<open>fs.unlinkSync\<close>: removes the file, and throws when there is none.\<close>

definition unlinkSync ::
    "string \<Rightarrow> ('w, 'z) sys_scheme \<Rightarrow> (js_error + unit) \<times> ('w, 'z) sys_scheme" where
  "unlinkSync filePath s =
     (if filePath \<in> files s then (Inr (), s\<lparr>files := files s - {filePath}\<rparr>)
      else (Inl (JsError ''ENOENT'' filePath), s))"

text \<open>
  The delivery URL (\<^verbatim>\<open>resource.secure_url || resource.url\<close>, line 145), \<open>None\<close> when the
  result is falsy, which is when the source throws.
\<close>

definition cloudinaryUrl :: "resource \<Rightarrow> string option" where
  "cloudinaryUrl r =
     (let u = (if truthy (secure_url r) then secure_url r else url r) in
      if truthy u then u else None)"

text \<open>
  \<^verbatim>\<open>migrateAsset\<close> from line 142 on (after the existence check): pick the delivery URL,
  download, upload, remove the staging file, answer \<^verbatim>\<open>'migrated'\<close>. Each \<open>Inl\<close> is a
  \<^verbatim>\<open>throw\<close> of the source or a rejected promise that it awaits.
\<close>

definition transferAsset ::
    "'w env \<Rightarrow> resource \<Rightarrow> string \<Rightarrow> ('w, 'z) sys_scheme
       \<Rightarrow> (js_error + string) \<times> ('w, 'z) sys_scheme" where
  "transferAsset sv r s3Key s =
     (case cloudinaryUrl r of
        None \<Rightarrow> (Inl (JsError [] (''No downloadable URL found for '' @ public_id r)), s)
      | Some u \<Rightarrow>
          (case downloadAsset sv u (public_id r) (format r) s of
             (Inl error, s1) \<Rightarrow> (Inl error, s1)
           | (Inr localFilePath, s1) \<Rightarrow>
               (case uploadToS3 sv localFilePath r s3Key s1 of
                  (Inl error, s2) \<Rightarrow> (Inl error, s2)
                | (Inr _, s2) \<Rightarrow>
                    (case unlinkSync localFilePath s2 of
                       (Inl error, s3) \<Rightarrow> (Inl error, s3)
                     | (Inr _, s3) \<Rightarrow> (Inr ''migrated'', s3)))))"

text \<open>
  \<^verbatim>\<open>migrateAsset\<close>: the existence check runs only under
  \<^verbatim>\<open>this.skipExisting && !this.forceOverwrite\<close>; an existing object ends the worker with
  \<^verbatim>\<open>'skipped'\<close> and an entry in \<^verbatim>\<open>skippedAssets\<close>.
\<close>

definition migrateAsset ::
    "'w env \<Rightarrow> resource \<Rightarrow> 'w migrator \<Rightarrow> (js_error + string) \<times> 'w migrator" where
  "migrateAsset sv r m =
     (let s3Key = migrate_s3Key r in
      if skipExisting m \<and> \<not> forceOverwrite m then
        (case checkS3FileExists sv s3Key m of (exists, m1) \<Rightarrow>
           if exists
           then (Inr ''skipped'',
                 m1\<lparr>skippedAssets := skippedAssets m1 @ [(public_id r, s3Key, ''already_exists'')]\<rparr>)
           else transferAsset sv r s3Key m1)
      else transferAsset sv r s3Key m)"

text \<open>
  \<^verbatim>\<open>processBatch\<close>: one task per resource; its \<^verbatim>\<open>then\<close> handler counts \<^verbatim>\<open>'migrated'\<close> or
  \<^verbatim>\<open>'skipped'\<close> (and nothing for any other answer), its \<^verbatim>\<open>catch\<close> handler counts a failure
  and records it.
\<close>

definition migrateTask :: "'w env \<Rightarrow> resource \<Rightarrow> 'w migrator \<Rightarrow> 'w migrator" where
  "migrateTask sv r m =
     (case migrateAsset sv r m of
        (Inr result, m1) \<Rightarrow>
          if result = ''migrated'' then m1\<lparr>migratedCount := migratedCount m1 + 1\<rparr>
          else if result = ''skipped'' then m1\<lparr>skippedCount := skippedCount m1 + 1\<rparr>
          else m1
      | (Inl error, m1) \<Rightarrow>
          m1\<lparr>failedCount := failedCount m1 + 1,
             failedAssets := failedAssets m1 @ [(public_id r, message error)]\<rparr>)"

text \<open>
  \<^verbatim>\<open>processBatch\<close>: the concurrency is \<^verbatim>\<open>parseInt(..) || 10\<close> (so \<^verbatim>\<open>NaN\<close> and \<open>0\<close> give 10 and
  a negative number stays); building the limiter may throw, before any task exists, and
  then \<^verbatim>\<open>processBatch\<close> rejects with the state untouched. Otherwise all tasks run and the
  promise resolves when the last has settled.

  The limiter bounds how many tasks are in flight, and the source interleaves the tasks in
  flight at their \<^verbatim>\<open>await\<close>s. The model runs the tasks of a batch one after the other, in the
  order of the batch. That is one of the schedules of the source; it does not show what two
  tasks in flight at once can do to each other (two tasks with the same staging path, where
  one removes the file the other still needs).
\<close>

definition concurrency :: "'w env \<Rightarrow> int" where
  "concurrency sv =
     (case MIGRATION_CONCURRENCY sv of
        Some n \<Rightarrow> if n \<noteq> 0 then n else 10
      | None \<Rightarrow> 10)"

definition processBatch ::
    "'w env \<Rightarrow> resource list \<Rightarrow> 'w migrator \<Rightarrow> js_error + 'w migrator" where
  "processBatch sv rs m =
     (case pLimit sv (concurrency sv) of
        Some error \<Rightarrow> Inl error
      | None \<Rightarrow> Inr (foldl (\<lambda>m' r. migrateTask sv r m') m rs))"

section \<open>The orchestrator\<close>

text \<open>
  The pagination loop of \<^verbatim>\<open>migrate\<close>. \<open>nextCursor\<close> is \<^verbatim>\<open>null\<close> at the start and is passed
  on only when truthy. The \<^verbatim>\<open>try\<close> block holds the catalog request, the update of
  \<^verbatim>\<open>totalCount\<close> and \<^verbatim>\<open>processBatch\<close>: a rejected catalog request ends the loop
  (\<^verbatim>\<open>break\<close>) with the state as it was, a rejected \<^verbatim>\<open>processBatch\<close> ends it with
  \<^verbatim>\<open>totalCount\<close> already raised. An answer without a truthy \<^verbatim>\<open>next_cursor\<close> ends the loop
  through \<^verbatim>\<open>hasMore\<close>. A catalog whose cursors never end keeps the loop running: the result
  \<open>None\<close> stands for a run that does not return.
\<close>

partial_function (option) migrate_loop ::
    "'w env \<Rightarrow> string option \<Rightarrow> 'w migrator \<Rightarrow> 'w migrator option" where
  "migrate_loop sv nextCursor m =
     (let cursor = (if truthy nextCursor then nextCursor else None);
          m0 = m\<lparr>trace := trace m @ [ApiResources cursor]\<rparr> in
      case api_resources sv cursor of
        Inl error \<Rightarrow> Some m0
      | Inr result \<Rightarrow>
          (let m1 = m0\<lparr>totalCount := totalCount m0 + length (resources result)\<rparr> in
           case processBatch sv (resources result) m1 of
             Inl error \<Rightarrow> Some m1
           | Inr m2 \<Rightarrow>
               if truthy (next_cursor result) then migrate_loop sv (next_cursor result) m2
               else Some m2))"

text \<open>\<^verbatim>\<open>migrate\<close>: the loop from the start; \<^verbatim>\<open>printSummary\<close> only reports the state.\<close>

definition migrate :: "'w env \<Rightarrow> 'w migrator \<Rightarrow> 'w migrator option" where
  "migrate sv m = migrate_loop sv None m"

section \<open>Migration of an explicit identifier list\<close>

text \<open>\<^verbatim>\<open>Array.prototype.slice(start, end)\<close> for \<open>0 \<le> start \<le> end\<close>; it stops at the end of the array.\<close>

definition slice :: "'a list \<Rightarrow> nat \<Rightarrow> nat \<Rightarrow> 'a list" where
  "slice xs start end' = take (end' - start) (drop start xs)"

text \<open>
  The first loop of \<^verbatim>\<open>migrateByPublicIds\<close>:
  \<^verbatim>\<open>for (let i = 0; i < publicIds.length; i += 100) batches.push(publicIds.slice(i, i + 100))\<close>.
\<close>

function publicIds_batches :: "string list \<Rightarrow> nat \<Rightarrow> string list list \<Rightarrow> string list list" where
  "publicIds_batches publicIds i batches =
     (if i < length publicIds
      then publicIds_batches publicIds (i + 100) (batches @ [slice publicIds i (i + 100)])
      else batches)"
  by pat_completeness auto
termination
  by (relation "measure (\<lambda>(publicIds, i, batches). length publicIds - i)") auto

declare publicIds_batches.simps [simp del]

text \<open>
  The second loop: one \<^verbatim>\<open>resources_by_ids\<close> request per batch; a rejected request, or a
  rejected \<^verbatim>\<open>processBatch\<close> after \<^verbatim>\<open>totalCount\<close> was raised, is logged and the loop goes
  on with the next batch.
\<close>

fun byIds_loop :: "'w env \<Rightarrow> string list list \<Rightarrow> 'w migrator \<Rightarrow> 'w migrator" where
  "byIds_loop sv [] m = m"
| "byIds_loop sv (batch # rest) m =
     (let m0 = m\<lparr>trace := trace m @ [ApiResourcesByIds batch]\<rparr> in
      case api_resources_by_ids sv batch of
        Inl error \<Rightarrow> byIds_loop sv rest m0
      | Inr rs \<Rightarrow>
          (let m1 = m0\<lparr>totalCount := totalCount m0 + length rs\<rparr> in
           case processBatch sv rs m1 of
             Inl error \<Rightarrow> byIds_loop sv rest m1
           | Inr m2 \<Rightarrow> byIds_loop sv rest m2))"

definition migrateByPublicIds :: "'w env \<Rightarrow> string list \<Rightarrow> 'w migrator \<Rightarrow> 'w migrator" where
  "migrateByPublicIds sv publicIds m = byIds_loop sv (publicIds_batches publicIds 0 []) m"

section \<open>The verifier\<close>

text \<open>
  The fields of \<^verbatim>\<open>MigrationVerifier\<close>. A missing asset is recorded with its identifier,
  format and expected key; a size mismatch with its identifier, the catalog's size, the
  destination's size and the key.
\<close>

record 'w verifier = "'w sys" +
  verified :: nat
  missing :: nat
  missingAssets :: "(string \<times> string option \<times> string) list"
  sizeMismatches :: "(string \<times> nat \<times> nat \<times> string) list"

definition new_verifier :: "('w, 'z) sys_scheme \<Rightarrow> 'w verifier" where
  "new_verifier s =
     \<lparr> world = world s, files = files s, trace = trace s,
       verified = 0, missing = 0, missingAssets = [], sizeMismatches = [] \<rparr>"

text \<open>The destination key of the verification (\<^verbatim>\<open>verifyAsset\<close>, line 94).\<close>

definition verify_s3Key :: "resource \<Rightarrow> string" where
  "verify_s3Key r =
     (case (if truthy (folder r) then folder r else None) of
        Some f \<Rightarrow> f @ ''/'' @ public_id r @ ''.'' @ template (format r)
      | None \<Rightarrow> public_id r @ ''.'' @ template (format r))"

text \<open>
  \<^verbatim>\<open>verifyAsset\<close>: a probe of the key; when it succeeds, a mismatch is recorded if \<^verbatim>\<open>bytes\<close>
  is truthy and differs from \<^verbatim>\<open>ContentLength\<close>, and \<^verbatim>\<open>verified\<close> is incremented in either
  case. \<^verbatim>\<open>NotFound\<close> counts the asset as missing; any other error is only printed.
\<close>

definition verifyAsset :: "'w env \<Rightarrow> resource \<Rightarrow> 'w verifier \<Rightarrow> 'w verifier" where
  "verifyAsset sv r v =
     (let s3Key = verify_s3Key r in
      case s3_headObject sv s3Key (world v) of (res, w') \<Rightarrow>
        (let v1 = v\<lparr>world := w', trace := trace v @ [S3HeadObject s3Key]\<rparr> in
         case res of
           Inr contentLength \<Rightarrow>
             (let v2 = (case (if truthy_num (bytes r) then bytes r else None) of
                          Some b \<Rightarrow>
                            if contentLength \<noteq> b
                            then v1\<lparr>sizeMismatches :=
                                      sizeMismatches v1 @ [(public_id r, b, contentLength, s3Key)]\<rparr>
                            else v1
                        | None \<Rightarrow> v1)
              in v2\<lparr>verified := verified v2 + 1\<rparr>)
         | Inl error \<Rightarrow>
             if code error = ''NotFound''
             then v1\<lparr>missing := missing v1 + 1,
                     missingAssets := missingAssets v1 @ [(public_id r, format r, verify_s3Key r)]\<rparr>
             else v1))"

text \<open>
  \<^verbatim>\<open>verifyBatch\<close>: all assets of the batch; the continuations run one at a time, in the model
  in the order of the batch.
\<close>

definition verifyBatch :: "'w env \<Rightarrow> resource list \<Rightarrow> 'w verifier \<Rightarrow> 'w verifier" where
  "verifyBatch sv rs v = foldl (\<lambda>v' r. verifyAsset sv r v') v rs"

text \<open>
  The success rate of \<^verbatim>\<open>printVerificationReport\<close>:
  \<^verbatim>\<open>total > 0 ? ((verified / total) * 100).toFixed(2) : 0\<close>. The quotient is taken over the
  rationals and rounded to the nearest hundredth, halves upwards; \<open>toFixed2\<close> writes a number
  of hundredths the way \<^verbatim>\<open>toFixed(2)\<close> prints. The source rounds the double it has computed,
  so where the exact value lies on a half hundredth, or within the error of the double
  from one, the two can differ in the last digit (23 verified of 160: 14.38 here, 14.37
  there). Two verified of three, as in the scenario below, is far from such a value.
\<close>

definition digit :: "nat \<Rightarrow> char" where
  "digit d = ''0123456789'' ! (d mod 10)"

fun decimal :: "nat \<Rightarrow> string" where
  "decimal n = (if n < 10 then [digit n] else decimal (n div 10) @ [digit n])"

declare decimal.simps [simp del]

definition toFixed2 :: "nat \<Rightarrow> string" where
  "toFixed2 h = decimal (h div 100) @ ''.'' @ [digit (h div 10), digit h]"

definition successRate :: "'w verifier \<Rightarrow> string" where
  "successRate v =
     (let total = verified v + missing v in
      if total > 0 then toFixed2 ((2 * (verified v * 10000) + total) div (2 * total))
      else ''0'')"

section \<open>Observations on the event log\<close>

text \<open>
  The existence probes, the catalog requests (by the cursor passed) and the direct lookups
  (by the identifier list passed) of a log, in order.
\<close>

definition head_probes :: "event list \<Rightarrow> string list" where
  "head_probes tr = concat (map (\<lambda>e. case e of S3HeadObject k \<Rightarrow> [k] | _ \<Rightarrow> []) tr)"

definition catalog_calls :: "event list \<Rightarrow> string option list" where
  "catalog_calls tr = concat (map (\<lambda>e. case e of ApiResources c \<Rightarrow> [c] | _ \<Rightarrow> []) tr)"

definition byIds_calls :: "event list \<Rightarrow> string list list" where
  "byIds_calls tr = concat (map (\<lambda>e. case e of ApiResourcesByIds b \<Rightarrow> [b] | _ \<Rightarrow> []) tr)"

text \<open>The number of outcomes counted so far.\<close>

definition outcomes :: "'w migrator \<Rightarrow> nat" where
  "outcomes m = migratedCount m + skippedCount m + failedCount m"

text \<open>The four counters of a migrator, and the catalog requests it has issued.\<close>

definition counts :: "'w migrator \<Rightarrow> nat \<times> nat \<times> nat \<times> nat" where
  "counts m = (migratedCount m, skippedCount m, failedCount m, totalCount m)"

definition catalog_requests :: "'w migrator \<Rightarrow> string option list" where
  "catalog_requests m = catalog_calls (trace m)"

text \<open>
  A catalog that serves the pages \<open>ps\<close> from a cursor on: every page but the last carries a
  truthy cursor, under which the next page is served, and the last page carries none.
\<close>

fun pages_from :: "(string option \<Rightarrow> js_error + page) \<Rightarrow> string option \<Rightarrow> page list \<Rightarrow> bool" where
  "pages_from api cursor [] = False"
| "pages_from api cursor [p] = (api cursor = Inr p \<and> \<not> truthy (next_cursor p))"
| "pages_from api cursor (p # q # ps) =
     (api cursor = Inr p \<and> truthy (next_cursor p) \<and> pages_from api (next_cursor p) (q # ps))"

section \<open>Test doubles\<close>

text \<open>
  A destination store that is a list of keys with their sizes. A probe answers with the
  size or with \<^verbatim>\<open>NotFound\<close>, an upload adds the key; either can be made to fail for chosen
  keys. Downloads always succeed.
\<close>

definition stub_s3_head :: "(string \<Rightarrow> js_error option) \<Rightarrow> string \<Rightarrow> (string \<times> nat) list
    \<Rightarrow> (js_error + nat) \<times> (string \<times> nat) list" where
  "stub_s3_head headFault key w =
     (case headFault key of
        Some e \<Rightarrow> (Inl e, w)
      | None \<Rightarrow>
          (case map_of w key of
             Some n \<Rightarrow> (Inr n, w)
           | None \<Rightarrow> (Inl (JsError ''NotFound'' ''Not Found''), w)))"

definition stub_s3_upload :: "(string \<Rightarrow> js_error option) \<Rightarrow> string \<Rightarrow> (string \<times> nat) list
    \<Rightarrow> (js_error + unit) \<times> (string \<times> nat) list" where
  "stub_s3_upload uploadFault key w =
     (case uploadFault key of
        Some e \<Rightarrow> (Inl e, w)
      | None \<Rightarrow> (Inr (), (key, 1) # w))"

text \<open>The limiter of the library: it refuses a concurrency below 1.\<close>

definition stub_pLimit :: "int \<Rightarrow> js_error option" where
  "stub_pLimit c =
     (if c < 1 then Some (JsError [] ''Expected concurrency to be a number from 1 and up'')
      else None)"

definition stub_env :: "(string option \<Rightarrow> js_error + page) \<Rightarrow> (string \<Rightarrow> js_error option)
    \<Rightarrow> (string \<Rightarrow> js_error option) \<Rightarrow> (string \<times> nat) list env" where
  "stub_env api headFault uploadFault =
     \<lparr> api_resources = api,
       api_resources_by_ids = (\<lambda>ids. Inr []),
       s3_headObject = stub_s3_head headFault,
       axios_get = (\<lambda>u w. (Inr (), w)),
       pipe_to_file = (\<lambda>p w. (Finish, w)),
       s3_upload = stub_s3_upload uploadFault,
       downloadsDir = ''downloads'',
       MIGRATION_CONCURRENCY = None,
       pLimit = stub_pLimit \<rparr>"

definition no_fault :: "string \<Rightarrow> js_error option" where
  "no_fault key = None"

definition access_denied :: "string \<Rightarrow> js_error option" where
  "access_denied key = Some (JsError ''AccessDenied'' ''Access Denied'')"

definition no_catalog :: "string option \<Rightarrow> js_error + page" where
  "no_catalog cursor = Inl (JsError ''ECONNREFUSED'' ''catalog unavailable'')"

definition asset :: "string \<Rightarrow> nat option \<Rightarrow> string option \<Rightarrow> resource" where
  "asset ident sz u =
     \<lparr> public_id = ident, format = Some ''jpg'', bytes = sz, folder = None,
       secure_url = u, url = None \<rparr>"

definition asset_A :: resource where
  "asset_A = asset ''A'' (Some 100) (Some ''https://cdn/A.jpg'')"

definition asset_B :: resource where
  "asset_B = asset ''B'' (Some 999) (Some ''https://cdn/B.jpg'')"

definition asset_C :: resource where
  "asset_C = asset ''C'' (Some 50) None"

definition asset_Z :: resource where
  "asset_Z = asset ''Z'' (Some 0) (Some ''https://cdn/Z.jpg'')"

text \<open>A raw asset: it has a delivery URL and no format.\<close>

definition asset_raw :: resource where
  "asset_raw = (asset ''R'' (Some 10) (Some ''https://cdn/R''))\<lparr>format := None\<rparr>"

text \<open>The same services under \<^verbatim>\<open>MIGRATION_CONCURRENCY=-1\<close>.\<close>

definition misconfigured_env :: "(string option \<Rightarrow> js_error + page) \<Rightarrow> (string \<times> nat) list env" where
  "misconfigured_env api = (stub_env api no_fault no_fault)\<lparr>MIGRATION_CONCURRENCY := Some (- 1)\<rparr>"

text \<open>
  Services that record each request they receive, in order, as the state of the outside
  world; every request succeeds, and a probe finds nothing.
\<close>

definition recording_env :: "string list env" where
  "recording_env =
     \<lparr> api_resources = no_catalog,
       api_resources_by_ids = (\<lambda>ids. Inr []),
       s3_headObject = (\<lambda>key w. (Inl (JsError ''NotFound'' ''Not Found''), w @ [''HEAD '' @ key])),
       axios_get = (\<lambda>u w. (Inr (), w @ [''GET '' @ u])),
       pipe_to_file = (\<lambda>p w. (Finish, w @ [''WRITE '' @ p])),
       s3_upload = (\<lambda>key w. (Inr (), w @ [''PUT '' @ key])),
       downloadsDir = ''downloads'',
       MIGRATION_CONCURRENCY = None,
       pLimit = stub_pLimit \<rparr>"

definition recorded :: "string list \<Rightarrow> string list sys" where
  "recorded requests = \<lparr> world = requests, files = {}, trace = [] \<rparr>"

text \<open>
  A catalog of three pages: the first at the start, the second under cursor \<open>c2\<close>, the
  third under \<open>c3\<close>, which carries no cursor. And one whose second request is rejected.
\<close>

definition page1 :: page where
  "page1 = \<lparr>resources = [asset_A], next_cursor = Some ''c2''\<rparr>"

definition page2 :: page where
  "page2 = \<lparr>resources = [asset_B], next_cursor = Some ''c3''\<rparr>"

definition page3 :: page where
  "page3 = \<lparr>resources = [asset_C], next_cursor = None\<rparr>"

definition three_pages :: "string option \<Rightarrow> js_error + page" where
  "three_pages cursor =
     (case cursor of
        None \<Rightarrow> Inr page1
      | Some c \<Rightarrow>
          if c = ''c2'' then Inr page2
          else if c = ''c3'' then Inr page3
          else Inl (JsError ''BadRequest'' ''unknown cursor''))"

definition broken_catalog :: "string option \<Rightarrow> js_error + page" where
  "broken_catalog cursor =
     (case cursor of
        None \<Rightarrow> Inr page1
      | Some c \<Rightarrow> Inl (JsError ''ETIMEDOUT'' ''catalog unavailable''))"

definition dest :: "(string \<times> nat) list \<Rightarrow> (string \<times> nat) list sys" where
  "dest objects = \<lparr> world = objects, files = {}, trace = [] \<rparr>"

text \<open>
  The verification scenario: the destination holds objects of sizes 100 and 200 under the
  keys the verifier probes for \<open>A\<close> and \<open>B\<close>; the catalog lists \<open>A\<close> (100), \<open>B\<close> (999) and
  \<open>C\<close> (50).
\<close>

definition verification_scenario :: "(string \<times> nat) list verifier" where
  "verification_scenario =
     verifyBatch (stub_env no_catalog no_fault no_fault) [asset_A, asset_B, asset_C]
       (new_verifier (dest [(''A.jpg'', 100), (''B.jpg'', 200)]))"

text \<open>A list of 250 identifiers.\<close>

definition ids250 :: "string list" where
  "ids250 = replicate 250 ''id''"

section \<open>Lemmas about the worker and the iteration\<close>

lemma head_probes_append [simp]: "head_probes (xs @ ys) = head_probes xs @ head_probes ys"
  by (simp add: head_probes_def)

lemma catalog_calls_append [simp]: "catalog_calls (xs @ ys) = catalog_calls xs @ catalog_calls ys"
  by (simp add: catalog_calls_def)

lemma byIds_calls_append [simp]: "byIds_calls (xs @ ys) = byIds_calls xs @ byIds_calls ys"
  by (simp add: byIds_calls_def)

lemma observations_Nil [simp]:
  "head_probes [] = []" "catalog_calls [] = []" "byIds_calls [] = []"
  by (simp_all add: head_probes_def catalog_calls_def byIds_calls_def)

lemma transferAsset_trace:
  "\<exists>evs. trace (snd (transferAsset sv r k s)) = trace s @ evs \<and>
         head_probes evs = [] \<and> catalog_calls evs = [] \<and> byIds_calls evs = []"
  by (auto simp add: transferAsset_def downloadAsset_def uploadToS3_def unlinkSync_def Let_def
        head_probes_def catalog_calls_def byIds_calls_def
      split: prod.splits sum.splits if_splits option.splits pipe_outcome.splits)

lemma checkS3FileExists_trace:
  "\<exists>evs. trace (snd (checkS3FileExists sv k s)) = trace s @ evs \<and>
         head_probes evs = [k] \<and> catalog_calls evs = [] \<and> byIds_calls evs = []"
  by (auto simp add: checkS3FileExists_def Let_def
        head_probes_def catalog_calls_def byIds_calls_def
      split: prod.splits sum.splits if_splits)

lemma migrateAsset_trace:
  "\<exists>evs. trace (snd (migrateAsset sv r m)) = trace m @ evs \<and>
         catalog_calls evs = [] \<and> byIds_calls evs = []"
proof (cases "skipExisting m \<and> \<not> forceOverwrite m")
  case False
  then have "migrateAsset sv r m = transferAsset sv r (migrate_s3Key r) m"
    by (auto simp add: migrateAsset_def)
  then show ?thesis using transferAsset_trace [of sv r "migrate_s3Key r" m] by auto
next
  case True
  obtain ex m1 where c: "checkS3FileExists sv (migrate_s3Key r) m = (ex, m1)"
    by (cases "checkS3FileExists sv (migrate_s3Key r) m")
  obtain evs where e: "trace m1 = trace m @ evs" "catalog_calls evs = []" "byIds_calls evs = []"
    using checkS3FileExists_trace [of sv "migrate_s3Key r" m] c by auto
  show ?thesis
  proof (cases ex)
    case True
    with \<open>skipExisting m \<and> \<not> forceOverwrite m\<close> c e show ?thesis
      by (auto simp add: migrateAsset_def)
  next
    case False
    obtain evs' where e': "trace (snd (transferAsset sv r (migrate_s3Key r) m1)) = trace m1 @ evs'"
        "catalog_calls evs' = []" "byIds_calls evs' = []"
      using transferAsset_trace [of sv r "migrate_s3Key r" m1] by auto
    with False \<open>skipExisting m \<and> \<not> forceOverwrite m\<close> c e show ?thesis
      by (auto simp add: migrateAsset_def)
  qed
qed

lemma migrateAsset_result:
  "fst (migrateAsset sv r m) = Inr x \<Longrightarrow> x = ''migrated'' \<or> x = ''skipped''"
  by (auto simp add: migrateAsset_def transferAsset_def Let_def
      split: prod.splits sum.splits if_splits option.splits)

lemma checkS3FileExists_more: "sys.more (snd (checkS3FileExists sv k s)) = sys.more s"
  by (simp add: checkS3FileExists_def Let_def split: prod.split sum.split)

lemma downloadAsset_more: "sys.more (snd (downloadAsset sv u p f s)) = sys.more s"
  by (simp add: downloadAsset_def Let_def split: prod.split sum.split pipe_outcome.split)

lemma uploadToS3_more: "sys.more (snd (uploadToS3 sv p r k s)) = sys.more s"
  by (simp add: uploadToS3_def Let_def split: prod.split sum.split)

lemma unlinkSync_more: "sys.more (snd (unlinkSync p s)) = sys.more s"
  by (simp add: unlinkSync_def)

lemma transferAsset_more: "sys.more (snd (transferAsset sv r k s)) = sys.more s"
proof (cases "cloudinaryUrl r")
  case None
  then show ?thesis by (simp add: transferAsset_def)
next
  case (Some u)
  obtain r1 s1 where d: "downloadAsset sv u (public_id r) (format r) s = (r1, s1)"
    by (cases "downloadAsset sv u (public_id r) (format r) s")
  then have m1: "sys.more s1 = sys.more s"
    using downloadAsset_more [of sv u "public_id r" "format r" s] by simp
  show ?thesis
  proof (cases r1)
    case (Inl e)
    with Some d m1 show ?thesis by (simp add: transferAsset_def)
  next
    case (Inr p)
    obtain r2 s2 where u: "uploadToS3 sv p r k s1 = (r2, s2)"
      by (cases "uploadToS3 sv p r k s1")
    then have m2: "sys.more s2 = sys.more s1"
      using uploadToS3_more [of sv p r k s1] by simp
    have m3: "sys.more (snd (unlinkSync p s2)) = sys.more s2"
      by (rule unlinkSync_more)
    from Some d Inr u m1 m2 m3 show ?thesis
      by (auto simp add: transferAsset_def split: sum.split prod.split)
  qed
qed

lemma migrator_fields_more:
  fixes a b :: "'w migrator"
  assumes "sys.more a = sys.more b"
  shows "migratedCount a = migratedCount b" "skippedCount a = skippedCount b"
    "failedCount a = failedCount b" "totalCount a = totalCount b"
    "skipExisting a = skipExisting b" "forceOverwrite a = forceOverwrite b"
    "failedAssets a = failedAssets b" "skippedAssets a = skippedAssets b"
  using assms by (cases a, cases b, simp)+

lemma migrateAsset_counts:
  "migratedCount (snd (migrateAsset sv r m)) = migratedCount m \<and>
   skippedCount (snd (migrateAsset sv r m)) = skippedCount m \<and>
   failedCount (snd (migrateAsset sv r m)) = failedCount m \<and>
   totalCount (snd (migrateAsset sv r m)) = totalCount m \<and>
   skipExisting (snd (migrateAsset sv r m)) = skipExisting m \<and>
   forceOverwrite (snd (migrateAsset sv r m)) = forceOverwrite m"
proof -
  obtain ex m1 where c: "checkS3FileExists sv (migrate_s3Key r) m = (ex, m1)"
    by (cases "checkS3FileExists sv (migrate_s3Key r) m")
  then have m1: "sys.more m1 = sys.more m"
    using checkS3FileExists_more [of sv "migrate_s3Key r" m] by simp
  note t = transferAsset_more [of sv r "migrate_s3Key r" m]
    transferAsset_more [of sv r "migrate_s3Key r" m1]
  show ?thesis
    using c migrator_fields_more [OF m1] migrator_fields_more [OF t(1)]
      migrator_fields_more [OF t(2)]
    by (simp add: migrateAsset_def Let_def)
qed

lemma migrateTask_one_counter:
  "totalCount (migrateTask sv r m) = totalCount m \<and>
   ((migratedCount (migrateTask sv r m), skippedCount (migrateTask sv r m),
       failedCount (migrateTask sv r m)) = (migratedCount m + 1, skippedCount m, failedCount m) \<or>
    (migratedCount (migrateTask sv r m), skippedCount (migrateTask sv r m),
       failedCount (migrateTask sv r m)) = (migratedCount m, skippedCount m + 1, failedCount m) \<or>
    (migratedCount (migrateTask sv r m), skippedCount (migrateTask sv r m),
       failedCount (migrateTask sv r m)) = (migratedCount m, skippedCount m, failedCount m + 1))"
proof (cases "migrateAsset sv r m")
  case (Pair res m1)
  have c: "migratedCount m1 = migratedCount m" "skippedCount m1 = skippedCount m"
      "failedCount m1 = failedCount m" "totalCount m1 = totalCount m"
    using migrateAsset_counts [of sv r m] Pair by simp_all
  show ?thesis
  proof (cases res)
    case (Inl e)
    with Pair c show ?thesis by (simp add: migrateTask_def)
  next
    case (Inr x)
    then have "x = ''migrated'' \<or> x = ''skipped''"
      using migrateAsset_result [of sv r m x] Pair by simp
    with Pair Inr c show ?thesis by (auto simp add: migrateTask_def)
  qed
qed

lemma migrateTask_counts:
  "outcomes (migrateTask sv r m) = outcomes m + 1 \<and>
   totalCount (migrateTask sv r m) = totalCount m"
  using migrateTask_one_counter [of sv r m] by (auto simp add: outcomes_def)

lemma migrateTask_trace:
  "\<exists>evs. trace (migrateTask sv r m) = trace m @ evs \<and>
         catalog_calls evs = [] \<and> byIds_calls evs = []"
  using migrateAsset_trace [of sv r m]
  by (cases "migrateAsset sv r m") (auto simp add: migrateTask_def split: sum.splits)

lemma tasks_counts:
  "outcomes (foldl (\<lambda>m' r. migrateTask sv r m') m rs) = outcomes m + length rs \<and>
   totalCount (foldl (\<lambda>m' r. migrateTask sv r m') m rs) = totalCount m"
  by (induction rs arbitrary: m) (simp_all add: migrateTask_counts)

lemma tasks_trace:
  "\<exists>evs. trace (foldl (\<lambda>m' r. migrateTask sv r m') m rs) = trace m @ evs \<and>
         catalog_calls evs = [] \<and> byIds_calls evs = []"
proof (induction rs arbitrary: m)
  case Nil
  then show ?case by simp
next
  case (Cons r rs)
  obtain e1 where e1: "trace (migrateTask sv r m) = trace m @ e1"
      "catalog_calls e1 = []" "byIds_calls e1 = []"
    using migrateTask_trace [of sv r m] by auto
  obtain e2 where e2:
      "trace (foldl (\<lambda>m' r. migrateTask sv r m') (migrateTask sv r m) rs) =
         trace (migrateTask sv r m) @ e2"
      "catalog_calls e2 = []" "byIds_calls e2 = []"
    using Cons.IH [of "migrateTask sv r m"] by auto
  show ?case
    by (rule exI [of _ "e1 @ e2"]) (simp add: e1 e2)
qed

lemma processBatch_cases:
  "(\<exists>e. pLimit sv (concurrency sv) = Some e \<and> processBatch sv rs m = Inl e) \<or>
   (pLimit sv (concurrency sv) = None \<and>
    processBatch sv rs m = Inr (foldl (\<lambda>m' r. migrateTask sv r m') m rs))"
  by (cases "pLimit sv (concurrency sv)") (simp_all add: processBatch_def)

lemma processBatch_counts:
  "processBatch sv rs m = Inr m' \<Longrightarrow>
   outcomes m' = outcomes m + length rs \<and> totalCount m' = totalCount m"
  using processBatch_cases [of sv rs m] tasks_counts [of sv m rs] by auto

lemma processBatch_trace:
  "processBatch sv rs m = Inr m' \<Longrightarrow>
   \<exists>evs. trace m' = trace m @ evs \<and> catalog_calls evs = [] \<and> byIds_calls evs = []"
  using processBatch_cases [of sv rs m] tasks_trace [of sv m rs] by auto

lemma migrate_loop_counts:
  assumes "migrate_loop sv c m = Some m'"
  shows "pLimit sv (concurrency sv) = None \<longrightarrow> outcomes m = totalCount m \<longrightarrow>
         outcomes m' = totalCount m'"
  using assms
proof (induction rule: migrate_loop.raw_induct [rotated 1, consumes 1, case_names step])
  case (step loop sv c m m')
  let ?cursor = "if truthy c then c else None"
  let ?m0 = "m\<lparr>trace := trace m @ [ApiResources ?cursor]\<rparr>"
  show ?case
  proof (intro impI)
    assume lim: "pLimit sv (concurrency sv) = None" and inv: "outcomes m = totalCount m"
    show "outcomes m' = totalCount m'"
    proof (cases "api_resources sv ?cursor")
      case (Inl e)
      with step(2) have "m' = ?m0" by (simp add: Let_def)
      with inv show ?thesis by (simp add: outcomes_def)
    next
      case (Inr result)
      let ?m1 = "?m0\<lparr>totalCount := totalCount ?m0 + length (resources result)\<rparr>"
      from lim obtain m2 where m2: "processBatch sv (resources result) ?m1 = Inr m2"
        using processBatch_cases [of sv "resources result" ?m1] by auto
      have inv2: "outcomes m2 = totalCount m2"
        using processBatch_counts [OF m2] inv by (simp add: outcomes_def)
      show ?thesis
      proof (cases "truthy (next_cursor result)")
        case True
        with step(2) Inr m2 have "loop sv (next_cursor result) m2 = Some m'"
          by (simp add: Let_def)
        with step(1) lim inv2 show ?thesis by blast
      next
        case False
        with step(2) Inr m2 have "m' = m2" by (simp add: Let_def)
        with inv2 show ?thesis by simp
      qed
    qed
  qed
qed

lemma migrate_loop_pages:
  "pages_from (api_resources sv) c ps \<Longrightarrow> c = None \<or> truthy c \<Longrightarrow>
   pLimit sv (concurrency sv) = None \<Longrightarrow>
   \<exists>m'. migrate_loop sv c m = Some m' \<and>
        catalog_calls (trace m') = catalog_calls (trace m) @ c # map next_cursor (butlast ps)"
proof (induction "api_resources sv" c ps arbitrary: m rule: pages_from.induct)
  case (1 cursor)
  then show ?case by simp
next
  case (2 cursor p)
  then have c: "(if truthy cursor then cursor else None) = cursor" by (auto simp add: truthy_def)
  let ?m1 = "m\<lparr>trace := trace m @ [ApiResources cursor],
                totalCount := totalCount m + length (resources p)\<rparr>"
  from 2(3) obtain m2 where m2: "processBatch sv (resources p) ?m1 = Inr m2"
    using processBatch_cases [of sv "resources p" ?m1] by auto
  obtain evs where "trace m2 = trace ?m1 @ evs" "catalog_calls evs = []"
    using processBatch_trace [OF m2] by auto
  with 2 c m2 show ?case
    by (subst migrate_loop.simps) (simp add: Let_def catalog_calls_def)
next
  case (3 cursor p q ps)
  then have c: "(if truthy cursor then cursor else None) = cursor" by (auto simp add: truthy_def)
  let ?m1 = "m\<lparr>trace := trace m @ [ApiResources cursor],
                totalCount := totalCount m + length (resources p)\<rparr>"
  from 3(4) obtain m2 where m2: "processBatch sv (resources p) ?m1 = Inr m2"
    using processBatch_cases [of sv "resources p" ?m1] by auto
  obtain evs where e: "trace m2 = trace ?m1 @ evs" "catalog_calls evs = []"
    using processBatch_trace [OF m2] by auto
  from 3 have "pages_from (api_resources sv) (next_cursor p) (q # ps)" "truthy (next_cursor p)"
    by simp_all
  from 3(1) [OF this(1) _ 3(4), of m2] this(2)
  obtain m' where m': "migrate_loop sv (next_cursor p) m2 = Some m'"
    "catalog_calls (trace m') =
       catalog_calls (trace m2) @ next_cursor p # map next_cursor (butlast (q # ps))"
    by auto
  from 3(2) have a: "api_resources sv cursor = Inr p" and t: "truthy (next_cursor p)" by simp_all
  have "migrate_loop sv cursor m = Some m'"
    by (subst migrate_loop.simps) (simp add: Let_def c a t m' m2)
  moreover have "catalog_calls (trace m') =
      catalog_calls (trace m) @ cursor # map next_cursor (butlast (p # q # ps))"
    using m'(2) e by (simp add: catalog_calls_def)
  ultimately show ?case by blast
qed

lemma publicIds_batches_concat:
  "concat (publicIds_batches ids i acc) = concat acc @ drop i ids"
proof (induction ids i acc rule: publicIds_batches.induct)
  case (1 ids i acc)
  show ?case
  proof (cases "i < length ids")
    case True
    have "take 100 (drop i ids) @ drop (i + 100) ids = drop i ids"
      by (metis add.commute append_take_drop_id drop_drop)
    with True 1 show ?thesis
      by (subst publicIds_batches.simps) (simp add: slice_def)
  next
    case False
    then show ?thesis by (subst publicIds_batches.simps) simp
  qed
qed

lemma ceil_step:
  fixes i n :: nat
  assumes "i < n"
  shows "(n - i + 99) div 100 = Suc ((n - (i + 100) + 99) div 100)"
proof (cases "i + 100 \<le> n")
  case True
  then have "n - i + 99 = (n - (i + 100) + 99) + 100" by linarith
  then have "(n - i + 99) div 100 = ((n - (i + 100) + 99) + 100) div 100"
    by (rule arg_cong)
  also have "\<dots> = (n - (i + 100) + 99) div 100 + 1"
    by (rule div_add_self2) simp
  finally show ?thesis by (simp only: Suc_eq_plus1)
next
  case False
  with assms have b: "100 * 1 \<le> n - i + 99" "n - i + 99 < 100 * Suc 1" and z: "n - (i + 100) = 0"
    by simp_all
  have "(n - i + 99) div 100 = 1" using b by (rule div_nat_eqI)
  moreover have "(n - (i + 100) + 99) div 100 = 0" by (simp add: z)
  ultimately show ?thesis by (simp only: One_nat_def)
qed

lemma publicIds_batches_length:
  "length (publicIds_batches ids i acc) = length acc + (length ids - i + 99) div 100"
proof (induction ids i acc rule: publicIds_batches.induct)
  case (1 ids i acc)
  show ?case
  proof (cases "i < length ids")
    case True
    have "length (publicIds_batches ids i acc) =
          length (publicIds_batches ids (i + 100) (acc @ [slice ids i (i + 100)]))"
      using True by (subst publicIds_batches.simps) simp
    also have "\<dots> = length (acc @ [slice ids i (i + 100)]) + (length ids - (i + 100) + 99) div 100"
      using True by (rule 1)
    also have "\<dots> = length acc + Suc ((length ids - (i + 100) + 99) div 100)"
      by simp
    also have "\<dots> = length acc + (length ids - i + 99) div 100"
      by (simp only: ceil_step [OF True])
    finally show ?thesis .
  next
    case False
    then show ?thesis by (subst publicIds_batches.simps) simp
  qed
qed

lemma ceil_div_100: "nat \<lceil>real n / 100\<rceil> = (n + 99) div 100"
proof -
  define q where "q = (n + 99) div 100"
  define r where "r = (n + 99) mod 100"
  have "n + 99 = 100 * q + r" and r: "r < 100"
    by (simp_all add: q_def r_def)
  then have "real (n + 99) = real (100 * q + r)" by (simp only:)
  then have e: "real n = 100 * real q + real r - 99" by simp
  from r have r': "real r \<le> 99" by simp
  have "\<lceil>real n / 100\<rceil> = int q"
  proof (rule ceiling_unique)
    show "of_int (int q) - 1 < real n / 100" using e by simp
    show "real n / 100 \<le> of_int (int q)" using e r' by simp
  qed
  then show ?thesis by (simp add: q_def)
qed

lemma publicIds_batches_sizes:
  "\<forall>b \<in> set acc. b \<noteq> [] \<and> length b \<le> 100 \<Longrightarrow>
   \<forall>b \<in> set (publicIds_batches ids i acc). b \<noteq> [] \<and> length b \<le> 100"
proof (induction ids i acc rule: publicIds_batches.induct)
  case (1 ids i acc)
  show ?case
  proof (cases "i < length ids")
    case True
    then have "slice ids i (i + 100) \<noteq> []" "length (slice ids i (i + 100)) \<le> 100"
      by (simp_all add: slice_def)
    with True 1 show ?thesis
      by (subst publicIds_batches.simps) simp
  next
    case False
    with 1(2) show ?thesis by (subst publicIds_batches.simps) simp
  qed
qed

lemma byIds_loop_trace:
  "byIds_calls (trace (byIds_loop sv bs m)) = byIds_calls (trace m) @ bs \<and>
   catalog_calls (trace (byIds_loop sv bs m)) = catalog_calls (trace m)"
proof (induction bs arbitrary: m)
  case Nil
  then show ?case by simp
next
  case (Cons b bs)
  let ?m0 = "m\<lparr>trace := trace m @ [ApiResourcesByIds b]\<rparr>"
  show ?case
  proof (cases "api_resources_by_ids sv b")
    case (Inl e)
    with Cons [of ?m0] show ?thesis by (simp add: Let_def byIds_calls_def catalog_calls_def)
  next
    case (Inr rs)
    let ?m1 = "?m0\<lparr>totalCount := totalCount ?m0 + length rs\<rparr>"
    show ?thesis
    proof (cases "processBatch sv rs ?m1")
      case (Inl e)
      with Inr Cons [of ?m1] show ?thesis
        by (simp add: Let_def byIds_calls_def catalog_calls_def)
    next
      case m2: (Inr m2)
      obtain evs where e: "trace m2 = trace ?m1 @ evs"
          "catalog_calls evs = []" "byIds_calls evs = []"
        using processBatch_trace [OF m2] by auto
      with Inr m2 Cons [of m2] show ?thesis
        by (simp add: Let_def byIds_calls_def catalog_calls_def)
    qed
  qed
qed

lemma byIds_loop_counts:
  "pLimit sv (concurrency sv) = None \<Longrightarrow> outcomes m = totalCount m \<Longrightarrow>
   outcomes (byIds_loop sv bs m) = totalCount (byIds_loop sv bs m)"
proof (induction bs arbitrary: m)
  case Nil
  then show ?case by simp
next
  case (Cons b bs)
  let ?m0 = "m\<lparr>trace := trace m @ [ApiResourcesByIds b]\<rparr>"
  show ?case
  proof (cases "api_resources_by_ids sv b")
    case (Inl e)
    with Cons.IH [of ?m0] Cons.prems show ?thesis by (simp add: Let_def outcomes_def)
  next
    case (Inr rs)
    let ?m1 = "?m0\<lparr>totalCount := totalCount ?m0 + length rs\<rparr>"
    from Cons.prems(1) obtain m2 where m2: "processBatch sv rs ?m1 = Inr m2"
      using processBatch_cases [of sv rs ?m1] by auto
    have "outcomes m2 = totalCount m2"
      using processBatch_counts [OF m2] Cons.prems(2) by (simp add: outcomes_def)
    with Inr m2 Cons.IH [of m2] Cons.prems(1) show ?thesis
      by (simp add: Let_def)
  qed
qed

text \<open>The defining equations used to evaluate the model on concrete inputs.\<close>

lemmas stub_defs = stub_env_def stub_s3_head_def stub_s3_upload_def stub_pLimit_def no_fault_def
  access_denied_def no_catalog_def asset_def asset_A_def asset_B_def asset_C_def asset_Z_def
  asset_raw_def dest_def three_pages_def broken_catalog_def page1_def page2_def page3_def
  misconfigured_env_def recording_env_def recorded_def

lemmas worker_defs = processBatch_def concurrency_def migrateTask_def migrateAsset_def
  transferAsset_def checkS3FileExists_def downloadAsset_def uploadToS3_def getContentType_def
  unlinkSync_def cloudinaryUrl_def migrate_s3Key_def stagingFilePath_def stagingFileName_def
  path_join_def template_def truthy_def new_migrator_def Let_def

lemmas verifier_defs = verifyBatch_def verifyAsset_def verify_s3Key_def new_verifier_def
  template_def truthy_def truthy_num_def Let_def

lemma transferAsset_result:
  "fst (transferAsset sv r k s) = Inr x \<Longrightarrow> x = ''migrated''"
  by (auto simp add: transferAsset_def split: prod.splits sum.splits option.splits)

lemma transferAsset_migrated_releases:
  "fst (transferAsset sv r k s) = Inr x \<Longrightarrow>
   stagingFilePath sv (public_id r) (format r) \<notin> files (snd (transferAsset sv r k s))"
  by (auto simp add: transferAsset_def downloadAsset_def uploadToS3_def unlinkSync_def Let_def
      split: prod.splits sum.splits pipe_outcome.splits if_splits option.splits)

lemma transferAsset_upload_failure_keeps_file:
  "cloudinaryUrl r = Some u \<Longrightarrow>
   downloadAsset sv u (public_id r) (format r) s = (Inr p, s1) \<Longrightarrow>
   fst (uploadToS3 sv p r k s1) = Inl e \<Longrightarrow>
   fst (transferAsset sv r k s) = Inl e \<and> p \<in> files (snd (transferAsset sv r k s))"
  by (auto simp add: transferAsset_def downloadAsset_def uploadToS3_def Let_def
      split: prod.splits sum.splits pipe_outcome.splits if_splits)

text \<open>The paths of the transfer, by what the services answer.\<close>

lemma transferAsset_no_url:
  "cloudinaryUrl r = None \<Longrightarrow>
   transferAsset sv r k s =
     (Inl (JsError [] (''No downloadable URL found for '' @ public_id r)), s)"
  by (simp add: transferAsset_def)

lemma transferAsset_get_rejected:
  "cloudinaryUrl r = Some u \<Longrightarrow> axios_get sv u (world s) = (Inl e, w1) \<Longrightarrow>
   transferAsset sv r k s = (Inl e, s\<lparr>world := w1, trace := trace s @ [HttpGet u]\<rparr>)"
  by (simp add: transferAsset_def downloadAsset_def Let_def)

lemma transferAsset_writer_error:
  "cloudinaryUrl r = Some u \<Longrightarrow> axios_get sv u (world s) = (Inr (), w1) \<Longrightarrow>
   pipe_to_file sv (stagingFilePath sv (public_id r) (format r)) w1 = (WriterError e created, w2) \<Longrightarrow>
   transferAsset sv r k s =
     (Inl e, s\<lparr>world := w2, trace := trace s @ [HttpGet u],
              files := (if created then insert (stagingFilePath sv (public_id r) (format r)) (files s)
                        else files s)\<rparr>)"
  by (simp add: transferAsset_def downloadAsset_def Let_def)

lemma transferAsset_no_format:
  "cloudinaryUrl r = Some u \<Longrightarrow> axios_get sv u (world s) = (Inr (), w1) \<Longrightarrow>
   pipe_to_file sv (stagingFilePath sv (public_id r) (format r)) w1 = (Finish, w2) \<Longrightarrow>
   format r = None \<Longrightarrow>
   transferAsset sv r k s =
     (Inl (JsError [] ''Cannot read properties of undefined (reading toLowerCase)''),
      s\<lparr>world := w2, trace := trace s @ [HttpGet u],
        files := insert (stagingFilePath sv (public_id r) (format r)) (files s)\<rparr>)"
  by (simp add: transferAsset_def downloadAsset_def uploadToS3_def getContentType_def Let_def)

lemma transferAsset_upload:
  "cloudinaryUrl r = Some u \<Longrightarrow> axios_get sv u (world s) = (Inr (), w1) \<Longrightarrow>
   pipe_to_file sv (stagingFilePath sv (public_id r) (format r)) w1 = (Finish, w2) \<Longrightarrow>
   format r = Some f \<Longrightarrow> k \<noteq> [] \<Longrightarrow>
   s3_upload sv k w2 = (x, w3) \<Longrightarrow>
   transferAsset sv r k s =
     (case x of
        Inl e \<Rightarrow>
          (Inl e, s\<lparr>world := w3, trace := trace s @ [HttpGet u, S3Upload k],
                   files := insert (stagingFilePath sv (public_id r) (format r)) (files s)\<rparr>)
      | Inr _ \<Rightarrow>
          (Inr ''migrated'', s\<lparr>world := w3, trace := trace s @ [HttpGet u, S3Upload k],
                   files := files s - {stagingFilePath sv (public_id r) (format r)}\<rparr>))"
  by (simp add: transferAsset_def downloadAsset_def uploadToS3_def unlinkSync_def
      getContentType_def Let_def split: sum.split)

lemma transferAsset_fetch_first:
  "cloudinaryUrl r = Some u \<Longrightarrow>
   \<exists>rest. trace (snd (transferAsset sv r k s)) = trace s @ HttpGet u # rest"
  by (auto simp add: transferAsset_def downloadAsset_def uploadToS3_def unlinkSync_def Let_def
      split: prod.splits sum.splits pipe_outcome.splits if_splits)

lemma keys_agree_iff:
  "verify_s3Key r = migrate_s3Key r \<longleftrightarrow> folder r = Some ''cloudinary''"
proof (cases "truthy (folder r)")
  case True
  then obtain f where f: "folder r = Some f" by (auto simp add: truthy_def split: option.splits)
  have "f @ ''/'' @ public_id r @ ''.'' @ template (format r) =
        ''cloudinary'' @ ''/'' @ public_id r @ ''.'' @ template (format r)
        \<longleftrightarrow> f = ''cloudinary''"
    by (rule append_same_eq)
  with True f show ?thesis by (simp add: verify_s3Key_def migrate_s3Key_def)
next
  case False
  have "length (public_id r @ ''.'' @ template (format r)) \<noteq>
        length (''cloudinary/'' @ public_id r @ ''.'' @ template (format r))"
    by simp
  then have "public_id r @ ''.'' @ template (format r) \<noteq>
        ''cloudinary/'' @ public_id r @ ''.'' @ template (format r)"
    by metis
  with False show ?thesis by (auto simp add: verify_s3Key_def migrate_s3Key_def truthy_def)
qed

section \<open>The claims\<close>

text \<open>
  Claim C1, as amended. In the scenario (destination objects of sizes 100 and 200 for \<open>A\<close> and
  \<open>B\<close>, catalog listing \<open>A\<close> of size 100, \<open>B\<close> of size 999 and \<open>C\<close> of size 50) the verifier
  counts \<open>A\<close> as verified, records the size mismatch (999, 200) for \<open>B\<close> and counts \<open>B\<close> as
  verified as well, records \<open>C\<close> as missing, and reports verified / total checked = 2 / 3
  as the success rate 66.67.
\<close>

theorem C1_verification_scenario:
  "verified (verifyAsset (stub_env no_catalog no_fault no_fault) asset_A
      (new_verifier (dest [(''A.jpg'', 100), (''B.jpg'', 200)]))) = 1 \<and>
   verified verification_scenario = 2 \<and>
   missing verification_scenario = 1 \<and>
   sizeMismatches verification_scenario = [(''B'', 999, 200, ''B.jpg'')] \<and>
   missingAssets verification_scenario = [(''C'', Some ''jpg'', ''C.jpg'')] \<and>
   successRate verification_scenario = ''66.67''"
  by (simp add: verification_scenario_def successRate_def toFixed2_def decimal.simps digit_def
      verifier_defs stub_defs)

text \<open>
  Claim C1 as stated fails: in that scenario the reported success rate is not 33.33, and
  the number of verified assets is not 1.
\<close>

theorem C1_success_rate_counterexample:
  "successRate verification_scenario \<noteq> ''33.33'' \<and> verified verification_scenario \<noteq> 1"
  by (simp add: verification_scenario_def successRate_def toFixed2_def decimal.simps digit_def
      verifier_defs stub_defs)

text \<open>
  Claim C2 (the verifier probes the key under which the worker stores the asset) at the
  descriptor \<open>A\<close> with format \<open>jpg\<close> and no folder: the worker stores it under
  \<open>cloudinary/A.jpg\<close>, the verifier probes \<open>A.jpg\<close>, and an asset just migrated into an
  empty destination is reported missing.
\<close>

theorem C2_keys_differ:
  "migrate_s3Key asset_A = ''cloudinary/A.jpg'' \<and>
   verify_s3Key asset_A = ''A.jpg'' \<and>
   fst (migrateAsset (stub_env no_catalog no_fault no_fault) asset_A
          (new_migrator None None (dest []))) = Inr ''migrated'' \<and>
   world (snd (migrateAsset (stub_env no_catalog no_fault no_fault) asset_A
          (new_migrator None None (dest [])))) = [(''cloudinary/A.jpg'', 1)] \<and>
   missing (verifyAsset (stub_env no_catalog no_fault no_fault) asset_A
      (new_verifier (snd (migrateAsset (stub_env no_catalog no_fault no_fault) asset_A
          (new_migrator None None (dest [])))))) = 1"
  by (simp add: worker_defs verifier_defs stub_defs)

text \<open>
  Claim C3 (the staging file is released on every exit path of a worker that reached the
  fetch step) at a worker whose download succeeds and whose upload is rejected: the worker
  ends with the error of the upload and the staging file \<open>downloads/A.jpg\<close> is still there.
\<close>

theorem C3_upload_failure_leaves_staging_file:
  "fst (migrateAsset (stub_env no_catalog no_fault access_denied) asset_A
          (new_migrator None None (dest []))) = Inl (JsError ''AccessDenied'' ''Access Denied'') \<and>
   files (snd (migrateAsset (stub_env no_catalog no_fault access_denied) asset_A
          (new_migrator None None (dest [])))) = {''downloads/A.jpg''}"
  by (simp add: worker_defs stub_defs)

text \<open>
  Claim C4. When \<open>forceOverwrite\<close> is set, whatever \<open>skipExisting\<close> is, the worker issues no
  existence probe and never answers \<open>skipped\<close>; it goes on to the transfer, which for a
  worker run on its own is fixed by what the services answer. Without a delivery URL it
  throws at once. With one it sends the download request to the outside world as the run
  found it; a rejected request ends the worker there. The response is written to the
  staging path; a writer error ends the worker. An asset without format then fails while the
  upload request is built. Otherwise the upload request for the destination key goes to the
  outside world as the download left it, and the worker ends with the world the upload
  left: rejected, with the staging file in place, or \<open>migrated\<close>, with the staging file
  removed.
\<close>

theorem C4_force_overwrite_bypasses_oracle:
  "forceOverwrite m \<Longrightarrow>
   head_probes (trace (snd (migrateAsset sv r m))) = head_probes (trace m) \<and>
   fst (migrateAsset sv r m) \<noteq> Inr ''skipped'' \<and>
   (cloudinaryUrl r = None \<longrightarrow>
      migrateAsset sv r m =
        (Inl (JsError [] (''No downloadable URL found for '' @ public_id r)), m)) \<and>
   (\<forall>u res w1. cloudinaryUrl r = Some u \<longrightarrow> axios_get sv u (world m) = (res, w1) \<longrightarrow>
      (\<exists>rest. trace (snd (migrateAsset sv r m)) = trace m @ HttpGet u # rest) \<and>
      (\<forall>e. res = Inl e \<longrightarrow>
         migrateAsset sv r m = (Inl e, m\<lparr>world := w1, trace := trace m @ [HttpGet u]\<rparr>)) \<and>
      (\<forall>e created w2. res = Inr () \<longrightarrow>
         pipe_to_file sv (stagingFilePath sv (public_id r) (format r)) w1 =
           (WriterError e created, w2) \<longrightarrow>
         migrateAsset sv r m =
           (Inl e, m\<lparr>world := w2, trace := trace m @ [HttpGet u],
                    files := (if created
                              then insert (stagingFilePath sv (public_id r) (format r)) (files m)
                              else files m)\<rparr>)) \<and>
      (\<forall>w2. res = Inr () \<longrightarrow>
         pipe_to_file sv (stagingFilePath sv (public_id r) (format r)) w1 = (Finish, w2) \<longrightarrow>
         format r = None \<longrightarrow>
         migrateAsset sv r m =
           (Inl (JsError [] ''Cannot read properties of undefined (reading toLowerCase)''),
            m\<lparr>world := w2, trace := trace m @ [HttpGet u],
              files := insert (stagingFilePath sv (public_id r) (format r)) (files m)\<rparr>)) \<and>
      (\<forall>w2 f x w3. res = Inr () \<longrightarrow>
         pipe_to_file sv (stagingFilePath sv (public_id r) (format r)) w1 = (Finish, w2) \<longrightarrow>
         format r = Some f \<longrightarrow>
         s3_upload sv (migrate_s3Key r) w2 = (x, w3) \<longrightarrow>
         migrateAsset sv r m =
           (case x of
              Inl e \<Rightarrow>
                (Inl e,
                 m\<lparr>world := w3, trace := trace m @ [HttpGet u, S3Upload (migrate_s3Key r)],
                   files := insert (stagingFilePath sv (public_id r) (format r)) (files m)\<rparr>)
            | Inr _ \<Rightarrow>
                (Inr ''migrated'',
                 m\<lparr>world := w3, trace := trace m @ [HttpGet u, S3Upload (migrate_s3Key r)],
                   files := files m - {stagingFilePath sv (public_id r) (format r)}\<rparr>))))"
proof -
  assume "forceOverwrite m"
  then have eq: "migrateAsset sv r m = transferAsset sv r (migrate_s3Key r) m"
    by (simp add: migrateAsset_def)
  have k: "migrate_s3Key r \<noteq> []" by (simp add: migrate_s3Key_def)
  obtain evs where "trace (snd (transferAsset sv r (migrate_s3Key r) m)) = trace m @ evs"
      "head_probes evs = []"
    using transferAsset_trace [of sv r "migrate_s3Key r" m] by auto
  then have probes: "head_probes (trace (snd (migrateAsset sv r m))) = head_probes (trace m)"
    by (simp add: eq)
  have result: "fst (migrateAsset sv r m) \<noteq> Inr ''skipped''"
    using transferAsset_result [of sv r "migrate_s3Key r" m "''skipped''"] by (auto simp add: eq)
  have no_url: "cloudinaryUrl r = None \<longrightarrow>
      migrateAsset sv r m =
        (Inl (JsError [] (''No downloadable URL found for '' @ public_id r)), m)"
    by (simp add: eq transferAsset_no_url)
  have paths: "\<forall>u res w1. cloudinaryUrl r = Some u \<longrightarrow> axios_get sv u (world m) = (res, w1) \<longrightarrow>
      (\<exists>rest. trace (snd (migrateAsset sv r m)) = trace m @ HttpGet u # rest) \<and>
      (\<forall>e. res = Inl e \<longrightarrow>
         migrateAsset sv r m = (Inl e, m\<lparr>world := w1, trace := trace m @ [HttpGet u]\<rparr>)) \<and>
      (\<forall>e created w2. res = Inr () \<longrightarrow>
         pipe_to_file sv (stagingFilePath sv (public_id r) (format r)) w1 =
           (WriterError e created, w2) \<longrightarrow>
         migrateAsset sv r m =
           (Inl e, m\<lparr>world := w2, trace := trace m @ [HttpGet u],
                    files := (if created
                              then insert (stagingFilePath sv (public_id r) (format r)) (files m)
                              else files m)\<rparr>)) \<and>
      (\<forall>w2. res = Inr () \<longrightarrow>
         pipe_to_file sv (stagingFilePath sv (public_id r) (format r)) w1 = (Finish, w2) \<longrightarrow>
         format r = None \<longrightarrow>
         migrateAsset sv r m =
           (Inl (JsError [] ''Cannot read properties of undefined (reading toLowerCase)''),
            m\<lparr>world := w2, trace := trace m @ [HttpGet u],
              files := insert (stagingFilePath sv (public_id r) (format r)) (files m)\<rparr>)) \<and>
      (\<forall>w2 f x w3. res = Inr () \<longrightarrow>
         pipe_to_file sv (stagingFilePath sv (public_id r) (format r)) w1 = (Finish, w2) \<longrightarrow>
         format r = Some f \<longrightarrow>
         s3_upload sv (migrate_s3Key r) w2 = (x, w3) \<longrightarrow>
         migrateAsset sv r m =
           (case x of
              Inl e \<Rightarrow>
                (Inl e,
                 m\<lparr>world := w3, trace := trace m @ [HttpGet u, S3Upload (migrate_s3Key r)],
                   files := insert (stagingFilePath sv (public_id r) (format r)) (files m)\<rparr>)
            | Inr _ \<Rightarrow>
                (Inr ''migrated'',
                 m\<lparr>world := w3, trace := trace m @ [HttpGet u, S3Upload (migrate_s3Key r)],
                   files := files m - {stagingFilePath sv (public_id r) (format r)}\<rparr>)))"
  proof (intro allI impI conjI)
    fix u res w1
    assume u: "cloudinaryUrl r = Some u"
    show "\<exists>rest. trace (snd (migrateAsset sv r m)) = trace m @ HttpGet u # rest"
      using transferAsset_fetch_first [OF u, of sv "migrate_s3Key r" m] by (simp add: eq)
  next
    fix u res w1 e
    assume "cloudinaryUrl r = Some u" "axios_get sv u (world m) = (res, w1)" "res = Inl e"
    then show "migrateAsset sv r m = (Inl e, m\<lparr>world := w1, trace := trace m @ [HttpGet u]\<rparr>)"
      by (simp add: eq transferAsset_get_rejected)
  next
    fix u res w1 e created w2
    assume "cloudinaryUrl r = Some u" "axios_get sv u (world m) = (res, w1)" "res = Inr ()"
      "pipe_to_file sv (stagingFilePath sv (public_id r) (format r)) w1 = (WriterError e created, w2)"
    then show "migrateAsset sv r m =
        (Inl e, m\<lparr>world := w2, trace := trace m @ [HttpGet u],
                 files := (if created
                           then insert (stagingFilePath sv (public_id r) (format r)) (files m)
                           else files m)\<rparr>)"
      using transferAsset_writer_error [of r u sv m w1 e created w2 "migrate_s3Key r"]
      by (simp add: eq)
  next
    fix u res w1 w2
    assume "cloudinaryUrl r = Some u" "axios_get sv u (world m) = (res, w1)" "res = Inr ()"
      "pipe_to_file sv (stagingFilePath sv (public_id r) (format r)) w1 = (Finish, w2)"
      "format r = None"
    then show "migrateAsset sv r m =
        (Inl (JsError [] ''Cannot read properties of undefined (reading toLowerCase)''),
         m\<lparr>world := w2, trace := trace m @ [HttpGet u],
           files := insert (stagingFilePath sv (public_id r) (format r)) (files m)\<rparr>)"
      using transferAsset_no_format [of r u sv m w1 w2 "migrate_s3Key r"]
      by (simp add: eq)
  next
    fix u res w1 w2 f x w3
    assume "cloudinaryUrl r = Some u" "axios_get sv u (world m) = (res, w1)" "res = Inr ()"
      "pipe_to_file sv (stagingFilePath sv (public_id r) (format r)) w1 = (Finish, w2)"
      "format r = Some f" "s3_upload sv (migrate_s3Key r) w2 = (x, w3)"
    then show "migrateAsset sv r m =
        (case x of
           Inl e \<Rightarrow>
             (Inl e,
              m\<lparr>world := w3, trace := trace m @ [HttpGet u, S3Upload (migrate_s3Key r)],
                files := insert (stagingFilePath sv (public_id r) (format r)) (files m)\<rparr>)
         | Inr _ \<Rightarrow>
             (Inr ''migrated'',
              m\<lparr>world := w3, trace := trace m @ [HttpGet u, S3Upload (migrate_s3Key r)],
                files := files m - {stagingFilePath sv (public_id r) (format r)}\<rparr>))"
      using transferAsset_upload [of r u sv m w1 w2 f "migrate_s3Key r" x w3] k
      by (simp add: eq)
  qed
  from probes result no_url paths show ?thesis by blast
qed

theorem C4_force_overwrite_witness:
  "forceOverwrite (new_migrator (Some True) (Some True) (recorded [])) \<and>
   skipExisting (new_migrator (Some True) (Some True) (recorded [])) \<and>
   cloudinaryUrl asset_A = Some ''https://cdn/A.jpg'' \<and>
   axios_get recording_env ''https://cdn/A.jpg'' [] = (Inr (), [''GET https://cdn/A.jpg'']) \<and>
   migrateAsset recording_env asset_A (new_migrator (Some True) (Some True) (recorded [])) =
     (Inr ''migrated'',
      (new_migrator (Some True) (Some True) (recorded []))
        \<lparr>world := [''GET https://cdn/A.jpg'', ''WRITE downloads/A.jpg'', ''PUT cloudinary/A.jpg''],
         trace := [HttpGet ''https://cdn/A.jpg'', S3Upload ''cloudinary/A.jpg''],
         files := {}\<rparr>) \<and>
   head_probes (trace (snd (migrateAsset recording_env asset_A
      (new_migrator (Some True) (Some True) (recorded []))))) = [] \<and>
   format asset_raw = None \<and>
   migrateAsset recording_env asset_raw (new_migrator (Some True) (Some True) (recorded [])) =
     (Inl (JsError [] ''Cannot read properties of undefined (reading toLowerCase)''),
      (new_migrator (Some True) (Some True) (recorded []))
        \<lparr>world := [''GET https://cdn/R'', ''WRITE downloads/R.undefined''],
         trace := [HttpGet ''https://cdn/R''],
         files := {''downloads/R.undefined''}\<rparr>)"
  using C4_force_overwrite_bypasses_oracle
    [of "new_migrator (Some True) (Some True) (recorded [])" recording_env asset_A]
    C4_force_overwrite_bypasses_oracle
    [of "new_migrator (Some True) (Some True) (recorded [])" recording_env asset_raw]
  by (simp add: worker_defs stub_defs head_probes_def)

text \<open>
  Claim C5. The existence check answers true exactly when the probe succeeded. On
  \<^verbatim>\<open>NotFound\<close> it answers false and logs nothing; on any other error it answers false and
  logs one warning; after a successful probe it logs nothing. It has no failing result: it
  is a total function into \<open>bool\<close>.
\<close>

theorem C5_existence_oracle:
  "(fst (checkS3FileExists sv key s) \<longleftrightarrow> (\<exists>n. fst (s3_headObject sv key (world s)) = Inr n)) \<and>
   (\<forall>n. fst (s3_headObject sv key (world s)) = Inr n \<longrightarrow>
      trace (snd (checkS3FileExists sv key s)) = trace s @ [S3HeadObject key]) \<and>
   (\<forall>e. fst (s3_headObject sv key (world s)) = Inl e \<longrightarrow> code e = ''NotFound'' \<longrightarrow>
      \<not> fst (checkS3FileExists sv key s) \<and>
      trace (snd (checkS3FileExists sv key s)) = trace s @ [S3HeadObject key]) \<and>
   (\<forall>e. fst (s3_headObject sv key (world s)) = Inl e \<longrightarrow> code e \<noteq> ''NotFound'' \<longrightarrow>
      \<not> fst (checkS3FileExists sv key s) \<and>
      trace (snd (checkS3FileExists sv key s)) =
        trace s @ [S3HeadObject key, ConsoleWarn key (message e)])"
  by (cases "s3_headObject sv key (world s)")
     (auto simp add: checkS3FileExists_def Let_def split: sum.splits)

theorem C5_existence_oracle_witness:
  "fst (s3_headObject (stub_env no_catalog access_denied no_fault) ''k'' (world (dest [(''k'', 7)]))) =
     Inl (JsError ''AccessDenied'' ''Access Denied'') \<and>
   \<not> fst (checkS3FileExists (stub_env no_catalog access_denied no_fault) ''k'' (dest [(''k'', 7)])) \<and>
   trace (snd (checkS3FileExists (stub_env no_catalog access_denied no_fault) ''k'' (dest [(''k'', 7)]))) =
     [S3HeadObject ''k'', ConsoleWarn ''k'' ''Access Denied''] \<and>
   fst (s3_headObject (stub_env no_catalog no_fault no_fault) ''k'' (world (dest []))) =
     Inl (JsError ''NotFound'' ''Not Found'') \<and>
   \<not> fst (checkS3FileExists (stub_env no_catalog no_fault no_fault) ''k'' (dest [])) \<and>
   trace (snd (checkS3FileExists (stub_env no_catalog no_fault no_fault) ''k'' (dest []))) =
     [S3HeadObject ''k''] \<and>
   fst (s3_headObject (stub_env no_catalog no_fault no_fault) ''k'' (world (dest [(''k'', 7)]))) =
     Inr 7 \<and>
   fst (checkS3FileExists (stub_env no_catalog no_fault no_fault) ''k'' (dest [(''k'', 7)]))"
  using C5_existence_oracle [of "stub_env no_catalog access_denied no_fault" "''k''" "dest [(''k'', 7)]"]
    C5_existence_oracle [of "stub_env no_catalog no_fault no_fault" "''k''" "dest []"]
    C5_existence_oracle [of "stub_env no_catalog no_fault no_fault" "''k''" "dest [(''k'', 7)]"]
  by (simp add: stub_defs)

text \<open>
  Claim C6, as amended. A run of \<^verbatim>\<open>migrate\<close> on a fresh migrator in which the limiter of
  each batch can be built, and that returns, whether its loop ended at a page without
  cursor or at a rejected catalog request, ends with
  \<open>migratedCount + skippedCount + failedCount = totalCount\<close>; and every task of a batch
  leaves \<open>totalCount\<close> as it is and raises exactly one of the three counters by one.
\<close>

theorem C6_aggregate_consistency:
  "pLimit sv (concurrency sv) = None \<Longrightarrow>
   migrate sv (new_migrator optSkipExisting optForceOverwrite s) = Some m' \<Longrightarrow>
   migratedCount m' + skippedCount m' + failedCount m' = totalCount m' \<and>
   totalCount (migrateTask sv r m) = totalCount m \<and>
   ((migratedCount (migrateTask sv r m), skippedCount (migrateTask sv r m),
       failedCount (migrateTask sv r m)) = (migratedCount m + 1, skippedCount m, failedCount m) \<or>
    (migratedCount (migrateTask sv r m), skippedCount (migrateTask sv r m),
       failedCount (migrateTask sv r m)) = (migratedCount m, skippedCount m + 1, failedCount m) \<or>
    (migratedCount (migrateTask sv r m), skippedCount (migrateTask sv r m),
       failedCount (migrateTask sv r m)) = (migratedCount m, skippedCount m, failedCount m + 1))"
proof -
  assume lim: "pLimit sv (concurrency sv) = None"
  assume "migrate sv (new_migrator optSkipExisting optForceOverwrite s) = Some m'"
  then have "migrate_loop sv None (new_migrator optSkipExisting optForceOverwrite s) = Some m'"
    by (simp add: migrate_def)
  moreover have "outcomes (new_migrator optSkipExisting optForceOverwrite s) =
      totalCount (new_migrator optSkipExisting optForceOverwrite s)"
    by (simp add: outcomes_def new_migrator_def)
  ultimately have "outcomes m' = totalCount m'"
    using migrate_loop_counts lim by blast
  then have "migratedCount m' + skippedCount m' + failedCount m' = totalCount m'"
    by (simp add: outcomes_def)
  with migrateTask_one_counter [of sv r m] show ?thesis by blast
qed

theorem C6_aggregate_consistency_witness:
  "pLimit (stub_env three_pages no_fault no_fault)
      (concurrency (stub_env three_pages no_fault no_fault)) = None \<and>
   pLimit (stub_env broken_catalog no_fault no_fault)
      (concurrency (stub_env broken_catalog no_fault no_fault)) = None \<and>
   (\<exists>m'. migrate (stub_env three_pages no_fault no_fault)
            (new_migrator None None (dest [(''cloudinary/A.jpg'', 100)])) = Some m' \<and>
         counts m' = (1, 1, 1, 3) \<and>
         migratedCount m' + skippedCount m' + failedCount m' = totalCount m') \<and>
   (\<exists>m'. migrate (stub_env broken_catalog no_fault no_fault)
            (new_migrator None None (dest [(''cloudinary/A.jpg'', 100)])) = Some m' \<and>
         counts m' = (0, 1, 0, 1) \<and>
         migratedCount m' + skippedCount m' + failedCount m' = totalCount m')"
proof -
  have l1: "pLimit (stub_env three_pages no_fault no_fault)
      (concurrency (stub_env three_pages no_fault no_fault)) = None"
    and l2: "pLimit (stub_env broken_catalog no_fault no_fault)
      (concurrency (stub_env broken_catalog no_fault no_fault)) = None"
    by (simp_all add: stub_defs concurrency_def)
  have "map_option counts
      (migrate (stub_env three_pages no_fault no_fault)
         (new_migrator None None (dest [(''cloudinary/A.jpg'', 100)]))) = Some (1, 1, 1, 3)"
    by (simp add: migrate_def migrate_loop.simps counts_def worker_defs stub_defs)
  then obtain m1 where m1: "migrate (stub_env three_pages no_fault no_fault)
        (new_migrator None None (dest [(''cloudinary/A.jpg'', 100)])) = Some m1"
      "counts m1 = (1, 1, 1, 3)"
    by auto
  have "map_option counts
      (migrate (stub_env broken_catalog no_fault no_fault)
         (new_migrator None None (dest [(''cloudinary/A.jpg'', 100)]))) = Some (0, 1, 0, 1)"
    by (simp add: migrate_def migrate_loop.simps counts_def worker_defs stub_defs)
  then obtain m2 where m2: "migrate (stub_env broken_catalog no_fault no_fault)
        (new_migrator None None (dest [(''cloudinary/A.jpg'', 100)])) = Some m2"
      "counts m2 = (0, 1, 0, 1)"
    by auto
  from l1 l2 m1 m2 C6_aggregate_consistency [OF l1 m1(1)] C6_aggregate_consistency [OF l2 m2(1)]
  show ?thesis by blast
qed

text \<open>
  Claim C6 as stated fails: under \<^verbatim>\<open>MIGRATION_CONCURRENCY=-1\<close> the limiter of the first batch
  cannot be built, \<^verbatim>\<open>processBatch\<close> rejects after \<open>totalCount\<close> was raised by the page's one
  asset, the loop ends, and the run returns with no outcome counted and \<open>totalCount = 1\<close>.
\<close>

theorem C6_limiter_counterexample:
  "map_option counts
     (migrate (misconfigured_env three_pages) (new_migrator None None (dest []))) =
   Some (0, 0, 0, 1)"
  by (simp add: migrate_def migrate_loop.simps counts_def worker_defs stub_defs)

text \<open>
  Claim C7. \<^verbatim>\<open>migrateByPublicIds\<close> cuts the identifier list into consecutive batches that
  together are the list, in order; there are \<open>n / 100\<close> rounded up of them, each non-empty
  and of at most 100 identifiers; the direct lookups it issues are exactly these batches,
  one request each and in order, and it issues no catalog request with a cursor.
\<close>

theorem C7_explicit_list_batches:
  "concat (publicIds_batches publicIds 0 []) = publicIds \<and>
   length (publicIds_batches publicIds 0 []) = nat \<lceil>real (length publicIds) / 100\<rceil> \<and>
   (\<forall>b \<in> set (publicIds_batches publicIds 0 []). b \<noteq> [] \<and> length b \<le> 100) \<and>
   byIds_calls (trace (migrateByPublicIds sv publicIds m)) =
     byIds_calls (trace m) @ publicIds_batches publicIds 0 [] \<and>
   catalog_calls (trace (migrateByPublicIds sv publicIds m)) = catalog_calls (trace m)"
  using publicIds_batches_concat [of publicIds 0 "[]"]
    publicIds_batches_length [of publicIds 0 "[]"]
    publicIds_batches_sizes [of "[]" publicIds 0]
    byIds_loop_trace [of sv "publicIds_batches publicIds 0 []" m]
  by (simp add: migrateByPublicIds_def ceil_div_100)

theorem C7_explicit_list_batches_witness:
  "length ids250 = 250 \<and>
   publicIds_batches ids250 0 [] =
     [replicate 100 ''id'', replicate 100 ''id'', replicate 50 ''id''] \<and>
   length (publicIds_batches ids250 0 []) = 3 \<and>
   byIds_calls (trace (migrateByPublicIds (stub_env no_catalog no_fault no_fault) ids250
      (new_migrator None None (dest [])))) =
     [replicate 100 ''id'', replicate 100 ''id'', replicate 50 ''id'']"
  using C7_explicit_list_batches [of ids250 "stub_env no_catalog no_fault no_fault"
      "new_migrator None None (dest [])"]
  by (simp add: ids250_def publicIds_batches.simps slice_def new_migrator_def dest_def
      byIds_calls_def)

text \<open>
  Claim C8, as amended. When the catalog serves \<open>k\<close> pages from the start, the first
  \<open>k - 1\<close> carrying a cursor and the last carrying none, and the limiter of each batch can be
  built, \<^verbatim>\<open>migrate\<close> returns, and the catalog requests it has issued are exactly \<open>k\<close>: the
  first without cursor, each further one with the cursor of the page before. With three
  pages at the positions start, \<open>c2\<close> and \<open>c3\<close> that is three requests.
\<close>

theorem C8_pagination_terminates:
  "pages_from (api_resources sv) None ps \<Longrightarrow>
   pLimit sv (concurrency sv) = None \<Longrightarrow>
   \<exists>m'. migrate sv m = Some m' \<and>
        catalog_calls (trace m') = catalog_calls (trace m) @ None # map next_cursor (butlast ps) \<and>
        length (catalog_calls (trace m')) = length (catalog_calls (trace m)) + length ps"
proof -
  assume ps: "pages_from (api_resources sv) None ps"
  assume lim: "pLimit sv (concurrency sv) = None"
  from ps have "ps \<noteq> []" by auto
  then have len: "length (None # map next_cursor (butlast ps)) = length ps" by simp
  from migrate_loop_pages [OF ps _ lim, of m]
  obtain m' where m': "migrate_loop sv None m = Some m'"
      "catalog_calls (trace m') = catalog_calls (trace m) @ None # map next_cursor (butlast ps)"
    by auto
  from m'(2) len have "length (catalog_calls (trace m')) = length (catalog_calls (trace m)) + length ps"
    by simp
  with m' show ?thesis by (auto simp add: migrate_def)
qed

theorem C8_pagination_terminates_witness:
  "pages_from (api_resources (stub_env three_pages no_fault no_fault)) None [page1, page2, page3] \<and>
   pLimit (stub_env three_pages no_fault no_fault)
      (concurrency (stub_env three_pages no_fault no_fault)) = None \<and>
   (\<exists>m'. migrate (stub_env three_pages no_fault no_fault) (new_migrator None None (dest [])) = Some m' \<and>
         catalog_calls (trace m') = [None, Some ''c2'', Some ''c3''] \<and>
         length (catalog_calls (trace m')) = 3)"
proof -
  have p: "pages_from (api_resources (stub_env three_pages no_fault no_fault)) None [page1, page2, page3]"
    by (simp add: stub_defs truthy_def)
  have l: "pLimit (stub_env three_pages no_fault no_fault)
      (concurrency (stub_env three_pages no_fault no_fault)) = None"
    by (simp add: stub_defs concurrency_def)
  have "next_cursor page1 = Some ''c2''" "next_cursor page2 = Some ''c3''"
    by (simp_all add: page1_def page2_def)
  with C8_pagination_terminates [OF p l, of "new_migrator None None (dest [])"] p l
  show ?thesis by (auto simp add: new_migrator_def dest_def)
qed

text \<open>
  Claim C8 as stated fails: the same three-page catalog under \<^verbatim>\<open>MIGRATION_CONCURRENCY=-1\<close>
  gets one request, not three, since the rejected \<^verbatim>\<open>processBatch\<close> of the first page ends
  the loop.
\<close>

theorem C8_limiter_counterexample:
  "pages_from (api_resources (misconfigured_env three_pages)) None [page1, page2, page3] \<and>
   map_option catalog_requests
     (migrate (misconfigured_env three_pages) (new_migrator None None (dest []))) =
   Some [None]"
  by (simp add: migrate_def migrate_loop.simps catalog_requests_def catalog_calls_def
      worker_defs stub_defs)

text \<open>
  Claim C9. For a descriptor whose \<open>bytes\<close> is absent or zero and whose probe succeeds,
  whatever size the destination reports, \<^verbatim>\<open>verifyAsset\<close> counts the asset as verified and
  records neither a size mismatch nor a missing asset.
\<close>

theorem C9_no_size_comparison_without_bytes:
  "bytes r = None \<or> bytes r = Some 0 \<Longrightarrow>
   fst (s3_headObject sv (verify_s3Key r) (world v)) = Inr n \<Longrightarrow>
   verified (verifyAsset sv r v) = verified v + 1 \<and>
   sizeMismatches (verifyAsset sv r v) = sizeMismatches v \<and>
   missing (verifyAsset sv r v) = missing v \<and>
   missingAssets (verifyAsset sv r v) = missingAssets v"
  by (cases "s3_headObject sv (verify_s3Key r) (world v)")
     (auto simp add: verifyAsset_def truthy_num_def Let_def)

theorem C9_no_size_comparison_witness:
  "bytes asset_Z = Some 0 \<and>
   fst (s3_headObject (stub_env no_catalog no_fault no_fault) (verify_s3Key asset_Z)
          (world (new_verifier (dest [(''Z.jpg'', 200)])))) = Inr 200 \<and>
   verified (verifyAsset (stub_env no_catalog no_fault no_fault) asset_Z
      (new_verifier (dest [(''Z.jpg'', 200)]))) = 1 \<and>
   sizeMismatches (verifyAsset (stub_env no_catalog no_fault no_fault) asset_Z
      (new_verifier (dest [(''Z.jpg'', 200)]))) = []"
  using C9_no_size_comparison_without_bytes [of asset_Z "stub_env no_catalog no_fault no_fault"
      "new_verifier (dest [(''Z.jpg'', 200)])" 200]
  by (simp add: stub_defs verify_s3Key_def template_def truthy_def new_verifier_def)

text \<open>
  Claim C10. The staging path is not injective in the identifier: for any format and
  downloads directory, the distinct identifiers \<open>a/b\<close> and \<open>a_b\<close> get the same staging file
  name and path, while their destination keys differ.
\<close>

theorem C10_staging_path_not_injective:
  "public_id (r\<lparr>public_id := ''a/b''\<rparr>) \<noteq> public_id (r\<lparr>public_id := ''a_b''\<rparr>) \<and>
   format (r\<lparr>public_id := ''a/b''\<rparr>) = format (r\<lparr>public_id := ''a_b''\<rparr>) \<and>
   stagingFileName ''a/b'' (format r) = stagingFileName ''a_b'' (format r) \<and>
   stagingFilePath sv ''a/b'' (format r) = stagingFilePath sv ''a_b'' (format r) \<and>
   migrate_s3Key (r\<lparr>public_id := ''a/b''\<rparr>) \<noteq> migrate_s3Key (r\<lparr>public_id := ''a_b''\<rparr>)"
  by (simp add: stagingFilePath_def stagingFileName_def migrate_s3Key_def)

end
